theory Spec2Isabelle
  imports Main
begin

section \<open>Paths of the snapshot store\<close>

text \<open>
  astpk.py keeps four parallel directories under \<^verbatim>\<open>/.snapshots\<close>
  (\<^verbatim>\<open>ROOTFS\<close>, \<^verbatim>\<open>VAR\<close>, \<^verbatim>\<open>ETC\<close>, \<^verbatim>\<open>BOOT\<close>); the member of bundle \<open>i\<close> in
  each is named \<^verbatim>\<open>snapshot-i\<close>, \<^verbatim>\<open>var-i\<close>, \<^verbatim>\<open>etc-i\<close>, \<^verbatim>\<open>boot-i\<close>.  A path is
  kept structured: \<open>Member k i\<close> is the member of kind \<open>k\<close> with the decimal
  rendering of the Python integer \<open>i\<close> after the dash, \<open>Slash\<close> is \<^verbatim>\<open>/\<close>.
\<close>

datatype kind = Rootfs | Var | Etc | Boot

datatype path = Member kind int | Slash

definition snapshot_path :: "int \<Rightarrow> path" where
  "snapshot_path snap_id = Member Rootfs snap_id"

definition var_path :: "int \<Rightarrow> path" where
  "var_path snap_id = Member Var snap_id"

definition etc_path :: "int \<Rightarrow> path" where
  "etc_path snap_id = Member Etc snap_id"

definition boot_path :: "int \<Rightarrow> path" where
  "boot_path snap_id = Member Boot snap_id"

text \<open>
  \<^verbatim>\<open>int(p.name.split("-")[1])\<close>: the piece after the first dash.  For a
  non-negative id that is its digits; for a negative one (\<^verbatim>\<open>snapshot--3\<close>) the
  piece is empty and \<^verbatim>\<open>int("")\<close> raises ValueError (\<open>None\<close> here).
\<close>

fun name_id :: "path \<Rightarrow> int option" where
  "name_id (Member k i) = (if 0 \<le> i then Some i else None)"
| "name_id Slash = None"

text \<open>
  \<^verbatim>\<open>int(out.strip().split("-")[-1])\<close>: the piece after the last dash of the
  line printed by \<^verbatim>\<open>btrfs subvolume get-default\<close>; \<open>None\<close> is a default
  subvolume whose path has no such numeric tail (ValueError).
\<close>

fun tail_id :: "path option \<Rightarrow> int option" where
  "tail_id (Some (Member k i)) = Some \<bar>i\<bar>"
| "tail_id (Some Slash) = None"
| "tail_id None = None"

section \<open>Command lines and printed lines\<close>

text \<open>A token of \<^verbatim>\<open>sys.argv\<close>: one that \<^verbatim>\<open>int()\<close> accepts, with its value, or any other.\<close>

datatype arg = Numeric int | Word string

text \<open>A mount target \<^verbatim>\<open>f"{root}/<dir>"\<close> inside a snapshot root.\<close>

datatype mpoint = Inside path string

text \<open>
  The argument vectors handed to \<^verbatim>\<open>utils.run\<close> and \<^verbatim>\<open>os.execvp\<close>:
  \<^item> \<open>SubvolSnapshot ro src dst\<close>: \<^verbatim>\<open>btrfs subvolume snapshot [-r] src dst\<close>, \<open>ro\<close> telling
    whether \<^verbatim>\<open>-r\<close> is passed;
  \<^item> \<open>SubvolDelete p\<close>: \<^verbatim>\<open>btrfs subvolume delete p\<close>;
  \<^item> \<open>SubvolSetDefault p\<close>: \<^verbatim>\<open>btrfs subvolume set-default p /\<close>;
  \<^item> \<open>SubvolGetDefault\<close>: \<^verbatim>\<open>btrfs subvolume get-default /\<close>;
  \<^item> \<open>GrubMkconfig\<close>: \<^verbatim>\<open>grub-mkconfig -o /boot/grub/grub.cfg\<close>;
  \<^item> \<open>MountBind s t\<close>, \<open>MountType ty s t\<close>, \<open>MountMakeRslave t\<close>, \<open>Umount t\<close>: the
    \<^verbatim>\<open>mount\<close> and \<^verbatim>\<open>umount\<close> calls of \<^verbatim>\<open>actions.chroot\<close>;
  \<^item> \<open>Chroot root argv\<close>: \<^verbatim>\<open>chroot root argv...\<close>;
  \<^item> \<open>Pacman argv\<close>: \<^verbatim>\<open>pacman argv...\<close>.
\<close>

datatype cmd =
    SubvolSnapshot bool path path
  | SubvolDelete path
  | SubvolSetDefault path
  | SubvolGetDefault
  | GrubMkconfig
  | MountBind string mpoint
  | MountType string string mpoint
  | MountMakeRslave mpoint
  | Umount mpoint
  | Chroot path "arg list"
  | Pacman "arg list"

text \<open>The messages of \<^verbatim>\<open>utils.die\<close>.\<close>

datatype diemsg =
    Usage string
  | CommandFailed cmd
  | DestinationExists path
  | TreeRunFailFast
  | Fatal

text \<open>Lines written to the terminal, in order.\<close>

datatype line =
    Echo cmd
  | CapturedStderr
  | LogError diemsg
  | TreeRunOn int
  | TreeRunFailedContinue int
  | Cloned int int
  | ClonedTree int int
  | Branched int int
  | Deployed int
  | BaseUpdated
  | GCCompleted

section \<open>The world outside the interpreter\<close>

text \<open>
  A subvolume as python-btrfs lists it: its path, its own uuid, the uuid of the
  subvolume it was snapshotted from, and its read-only flag.
\<close>

record subvol =
  sv_path :: path
  sv_uuid :: nat
  sv_parent_uuid :: "nat option"
  sv_readonly :: bool

text \<open>How a launched program ends: exit status 0, a non-zero status, or no launch at all.\<close>

datatype status = Exit0 | ExitNonzero | NoLaunch

datatype stdout = NoOutput | DefaultIs "path option"

text \<open>
  \<^item> \<open>subvols\<close>: the volume store, in the order it enumerates subvolumes;
  \<^item> \<open>next_uuid\<close>: the uuid the store gives the next subvolume;
  \<^item> \<open>default_subvol\<close>: the default boot target (\<open>None\<close>: the top-level volume);
  \<^item> \<open>mounted\<close>: the mount table, oldest first;
  \<^item> \<open>lock_held\<close>: an open file description of this process holds the
    \<^verbatim>\<open>flock\<close> on \<^verbatim>\<open>/run/ast.lock\<close>;
  \<^item> \<open>acquired\<close>: how many times \<^verbatim>\<open>flock\<close> has been granted;
  \<^item> \<open>trace\<close>: the programs launched, oldest first;
  \<^item> \<open>out\<close>: the lines printed, oldest first;
  \<^item> \<open>recursion_limit\<close>: the Python frames available to a recursive call chain;
  \<^item> \<open>fault\<close>: what the environment does to a program independently of the
    store (\<open>Exit0\<close>: nothing, the program behaves as \<open>tool\<close> says).
\<close>

record world =
  subvols :: "subvol list"
  next_uuid :: nat
  default_subvol :: "path option"
  mounted :: "mpoint list"
  lock_held :: bool
  acquired :: nat
  trace :: "cmd list"
  out :: "line list"
  recursion_limit :: nat
  fault :: "cmd \<Rightarrow> status"

definition find_subvol :: "world \<Rightarrow> path \<Rightarrow> subvol option" where
  "find_subvol w p = find (\<lambda>sv. sv_path sv = p) (subvols w)"

text \<open>\<^verbatim>\<open>Path.exists()\<close> for a path of the store.\<close>

definition path_exists :: "world \<Rightarrow> path \<Rightarrow> bool" where
  "path_exists w p = (p = Slash \<or> find_subvol w p \<noteq> None)"

text \<open>
  The external tools, as section 6 of the specification describes the primitives
  the orchestrator consumes: a snapshot fails when its destination exists or its
  source does not, and records the source's uuid as the new subvolume's parent
  (nothing is recorded for a snapshot of \<^verbatim>\<open>/\<close>, whose subvolume is outside
  the store directories); a delete fails when the path is missing; an unmount
  fails when the target is not mounted.
\<close>

definition add_subvol :: "path \<Rightarrow> nat option \<Rightarrow> bool \<Rightarrow> world \<Rightarrow> world" where
  "add_subvol dst parent ro w =
     w\<lparr>subvols := subvols w @
          [\<lparr>sv_path = dst, sv_uuid = next_uuid w, sv_parent_uuid = parent, sv_readonly = ro\<rparr>],
       next_uuid := Suc (next_uuid w)\<rparr>"

fun tool :: "cmd \<Rightarrow> world \<Rightarrow> status \<times> stdout \<times> world" where
  "tool (SubvolSnapshot ro src dst) w =
     (if path_exists w dst then (ExitNonzero, NoOutput, w)
      else if src = Slash then (Exit0, NoOutput, add_subvol dst None ro w)
      else (case find_subvol w src of
              None \<Rightarrow> (ExitNonzero, NoOutput, w)
            | Some sv \<Rightarrow> (Exit0, NoOutput, add_subvol dst (Some (sv_uuid sv)) ro w)))"
| "tool (SubvolDelete p) w =
     (if find_subvol w p = None then (ExitNonzero, NoOutput, w)
      else (Exit0, NoOutput, w\<lparr>subvols := filter (\<lambda>sv. sv_path sv \<noteq> p) (subvols w)\<rparr>))"
| "tool (SubvolSetDefault p) w =
     (if find_subvol w p = None then (ExitNonzero, NoOutput, w)
      else (Exit0, NoOutput, w\<lparr>default_subvol := Some p\<rparr>))"
| "tool SubvolGetDefault w = (Exit0, DefaultIs (default_subvol w), w)"
| "tool GrubMkconfig w = (Exit0, NoOutput, w)"
| "tool (MountBind s t) w = (Exit0, NoOutput, w\<lparr>mounted := mounted w @ [t]\<rparr>)"
| "tool (MountType ty s t) w = (Exit0, NoOutput, w\<lparr>mounted := mounted w @ [t]\<rparr>)"
| "tool (MountMakeRslave t) w = (Exit0, NoOutput, w)"
| "tool (Umount t) w =
     (if t \<in> set (mounted w) then (Exit0, NoOutput, w\<lparr>mounted := remove1 t (mounted w)\<rparr>)
      else (ExitNonzero, NoOutput, w))"
| "tool (Chroot root argv) w = (Exit0, NoOutput, w)"
| "tool (Pacman argv) w = (Exit0, NoOutput, w)"

text \<open>\<^verbatim>\<open>subprocess.run(cmd, ...)\<close>: the launch is recorded, then the fault or the tool decides.\<close>

definition spawn :: "cmd \<Rightarrow> world \<Rightarrow> status \<times> stdout \<times> world" where
  "spawn c w =
     (case fault w c of
        NoLaunch \<Rightarrow> (NoLaunch, NoOutput, w)
      | ExitNonzero \<Rightarrow> (ExitNonzero, NoOutput, w\<lparr>trace := trace w @ [c]\<rparr>)
      | Exit0 \<Rightarrow> tool c (w\<lparr>trace := trace w @ [c]\<rparr>))"

section \<open>Python control flow\<close>

text \<open>
  The exceptions that occur.  \<open>SystemExit\<close> derives from \<^verbatim>\<open>BaseException\<close> only,
  so \<^verbatim>\<open>except Exception\<close> does not catch it; the others derive from
  \<^verbatim>\<open>Exception\<close>.
\<close>

datatype exn = SystemExit int | TypeError | ValueError | OSError | RecursionError | LookupError

fun is_Exception :: "exn \<Rightarrow> bool" where
  "is_Exception (SystemExit c) = False"
| "is_Exception e = True"

text \<open>
  A call returns, raises, never comes back because \<^verbatim>\<open>os.execvp\<close> replaced the
  process image, or never comes back because it waits forever.
\<close>

datatype 'a outcome = Return 'a | Raise exn | Execed | Hangs

type_synonym 'a py = "world \<Rightarrow> 'a outcome \<times> world"

definition ret :: "'a \<Rightarrow> 'a py" where
  "ret x w = (Return x, w)"

definition bnd :: "'a py \<Rightarrow> ('a \<Rightarrow> 'b py) \<Rightarrow> 'b py" where
  "bnd m f w =
     (case m w of
        (Return x, w') \<Rightarrow> f x w'
      | (Raise e, w') \<Rightarrow> (Raise e, w')
      | (Execed, w') \<Rightarrow> (Execed, w')
      | (Hangs, w') \<Rightarrow> (Hangs, w'))"

definition emit :: "line \<Rightarrow> world \<Rightarrow> world" where
  "emit l w = w\<lparr>out := out w @ [l]\<rparr>"

definition print :: "line \<Rightarrow> unit py" where
  "print l w = (Return (), emit l w)"

text \<open>\<^verbatim>\<open>try: body finally: fin\<close>; the finally suite runs unless control never comes back.\<close>

definition try_finally :: "'a py \<Rightarrow> unit py \<Rightarrow> 'a py" where
  "try_finally body fin w =
     (case body w of
        (Execed, w') \<Rightarrow> (Execed, w')
      | (Hangs, w') \<Rightarrow> (Hangs, w')
      | (r, w') \<Rightarrow>
          (case fin w' of
             (Return u, w'') \<Rightarrow> (r, w'')
           | (Raise e, w'') \<Rightarrow> (Raise e, w'')
           | (Execed, w'') \<Rightarrow> (Execed, w'')
           | (Hangs, w'') \<Rightarrow> (Hangs, w'')))"

text \<open>\<^verbatim>\<open>try: body except Exception: handler\<close>.\<close>

definition try_except_Exception :: "'a py \<Rightarrow> 'a py \<Rightarrow> 'a py" where
  "try_except_Exception body handler w =
     (case body w of
        (Raise e, w') \<Rightarrow> (if is_Exception e then handler w' else (Raise e, w'))
      | (r, w') \<Rightarrow> (r, w'))"

section \<open>utils\<close>

text \<open>\<^verbatim>\<open>utils.log("ERROR", msg); sys.exit(code)\<close>.\<close>

definition die :: "diemsg \<Rightarrow> int \<Rightarrow> 'a py" where
  "die msg code w = (Raise (SystemExit code), emit (LogError msg) w)"

text \<open>
  \<^verbatim>\<open>utils.run(cmd, check=..., capture=...)\<close> with \<^verbatim>\<open>shell=False\<close>, the only way
  it is called.  A non-zero status raises \<^verbatim>\<open>CalledProcessError\<close> inside
  \<^verbatim>\<open>subprocess.run\<close> only when \<open>check\<close> is set; the handler then calls
  \<^verbatim>\<open>utils.die\<close>.  A program that cannot be launched raises \<^verbatim>\<open>OSError\<close>, which
  the handler does not catch.
\<close>

definition run :: "cmd \<Rightarrow> bool \<Rightarrow> bool \<Rightarrow> stdout option py" where
  "run c check capture w =
     (case spawn c (emit (Echo c) w) of
        (NoLaunch, so, w') \<Rightarrow> (Raise OSError, w')
      | (ExitNonzero, so, w') \<Rightarrow>
          (if check then die (CommandFailed c) 1 (if capture then emit CapturedStderr w' else w')
           else (Return (if capture then Some so else None), w'))
      | (Exit0, so, w') \<Rightarrow> (Return (if capture then Some so else None), w'))"

section \<open>Low-level btrfs helpers\<close>

text \<open>
  \<^verbatim>\<open>btrfs_snapshot(src, dst)\<close>.  \<^verbatim>\<open>dst.parent.mkdir(parents=True, exist_ok=True)\<close>
  creates a plain directory and touches no subvolume.
\<close>

definition btrfs_snapshot :: "path \<Rightarrow> path \<Rightarrow> unit py" where
  "btrfs_snapshot src dst w =
     (if path_exists w dst then die (DestinationExists dst) 1 w
      else bnd (run (SubvolSnapshot True src dst) True False) (\<lambda>_. ret ()) w)"

section \<open>The lock file\<close>

text \<open>
  Two kinds of object reach a \<^verbatim>\<open>with\<close> statement in astpk.py: the file object
  of \<^verbatim>\<open>open(LOCK_FILE, "w")\<close>, and what \<^verbatim>\<open>lock()\<close> returns.
\<close>

datatype pyobj = FileObject | GeneratorObject

definition open_lock_file :: "pyobj py" where
  "open_lock_file w = (Return FileObject, w)"

text \<open>
  \<^verbatim>\<open>utils.flock(fd)\<close> is \<^verbatim>\<open>fcntl.flock(fd, fcntl.LOCK_EX)\<close>: granted when no
  other open file description holds the lock, and waiting for it otherwise.  Every
  \<^verbatim>\<open>open\<close> makes a new description, so a process that asks again while one of
  its own descriptions holds the lock waits for itself.
\<close>

definition flock :: "pyobj \<Rightarrow> unit py" where
  "flock fd w =
     (if lock_held w then (Hangs, w)
      else (Return (), w\<lparr>lock_held := True, acquired := Suc (acquired w)\<rparr>))"

text \<open>Closing the description drops the lock it holds.\<close>

definition close_file :: "unit py" where
  "close_file w = (Return (), w\<lparr>lock_held := False\<rparr>)"

text \<open>
  \<^verbatim>\<open>def lock(): fd = open(LOCK_FILE, "w"); utils.flock(fd); try: yield finally: fd.close()\<close>.
  The body contains \<^verbatim>\<open>yield\<close> and the function carries no decorator (the module
  does not import \<^verbatim>\<open>contextlib\<close>), so a call runs none of the body: it builds a
  generator object and returns it.
\<close>

definition lock :: "pyobj py" where
  "lock w = (Return GeneratorObject, w)"

text \<open>
  \<^verbatim>\<open>with mgr as x: body\<close>.  A file object is a context manager whose exit closes
  it.  A generator object has neither \<^verbatim>\<open>__enter__\<close> nor \<^verbatim>\<open>__exit__\<close>: the
  statement raises \<^verbatim>\<open>TypeError\<close> (Python 3.11 and later; the \<^verbatim>\<open>int | None\<close>
  annotation in the module rules out anything before 3.10) and the body is not entered.
\<close>

definition with_stmt :: "pyobj py \<Rightarrow> (pyobj \<Rightarrow> 'a py) \<Rightarrow> 'a py" where
  "with_stmt mgr body =
     bnd mgr (\<lambda>obj. case obj of
                FileObject \<Rightarrow> try_finally (body obj) close_file
              | GeneratorObject \<Rightarrow> (\<lambda>w. (Raise TypeError, w)))"

section \<open>Identifier allocation and lineage\<close>

definition rootfs_entries :: "world \<Rightarrow> path list" where
  "rootfs_entries w = filter (\<lambda>p. case p of Member k i \<Rightarrow> k = Rootfs | Slash \<Rightarrow> False)
                             (map sv_path (subvols w))"

text \<open>A list comprehension over \<^verbatim>\<open>int(p.name.split("-")[1])\<close>.\<close>

definition ids_of :: "path list \<Rightarrow> int list py" where
  "ids_of ps w = (case those (map name_id ps) of
                    None \<Rightarrow> (Raise ValueError, w)
                  | Some ids \<Rightarrow> (Return ids, w))"

text \<open>\<^verbatim>\<open>max(ids, default=-1)\<close>.\<close>

definition max_default :: "int list \<Rightarrow> int" where
  "max_default ids = (if ids = [] then - 1 else fold max (tl ids) (hd ids))"

definition next_snapshot_id :: "int py" where
  "next_snapshot_id =
     with_stmt open_lock_file (\<lambda>fd.
       bnd (flock fd) (\<lambda>_.
       bnd (\<lambda>w. ids_of (rootfs_entries w) w) (\<lambda>ids.
       ret (max_default ids + 1))))"

text \<open>
  \<^verbatim>\<open>utils.get_children\<close>: every subvolume whose parent uuid is the uuid of
  \<^verbatim>\<open>snapshot-<snap_id>\<close>; names that do not parse are skipped.
\<close>

definition get_children :: "int \<Rightarrow> int list py" where
  "get_children snap_id w =
     (case find_subvol w (snapshot_path snap_id) of
        None \<Rightarrow> (Raise LookupError, w)
      | Some parent \<Rightarrow>
          (Return (List.map_filter name_id
                     (map sv_path
                        (filter (\<lambda>sv. sv_parent_uuid sv = Some (sv_uuid parent)) (subvols w)))),
           w))"

section \<open>actions\<close>

text \<open>\<^verbatim>\<open>int(x)\<close> on a command-line token.\<close>

fun py_int :: "arg \<Rightarrow> int py" where
  "py_int (Numeric n) w = (Return n, w)"
| "py_int (Word s) w = (Raise ValueError, w)"

subsection \<open>clone, clone_tree, branch, ubranch\<close>

definition clone :: "arg list \<Rightarrow> unit py" where
  "clone args =
     (if length args \<noteq> 1 then die (Usage ''ast clone <id>'') 1
      else
        bnd (py_int (args ! 0)) (\<lambda>src.
        bnd next_snapshot_id (\<lambda>dst.
        bnd (with_stmt lock (\<lambda>_.
               bnd (btrfs_snapshot (snapshot_path src) (snapshot_path dst)) (\<lambda>_.
               bnd (btrfs_snapshot (var_path src) (var_path dst)) (\<lambda>_.
               bnd (btrfs_snapshot (etc_path src) (etc_path dst)) (\<lambda>_.
               btrfs_snapshot (boot_path src) (boot_path dst)))))) (\<lambda>_.
        print (Cloned src dst)))))"

text \<open>
  \<^verbatim>\<open>actions._clone_recursive\<close>.  The first argument is the number of Python
  frames still available (\<open>recursion_limit\<close> at the outermost call): the interpreter
  raises \<^verbatim>\<open>RecursionError\<close> when a call would exceed its recursion limit.  \<^verbatim>\<open>parent_new\<close> is passed along and never read.
\<close>

fun clone_recursive :: "nat \<Rightarrow> int \<Rightarrow> int option \<Rightarrow> int py"
  and clone_children :: "nat \<Rightarrow> int list \<Rightarrow> int \<Rightarrow> unit py" where
  "clone_recursive 0 snap_id parent_new w = (Raise RecursionError, w)"
| "clone_recursive (Suc depth) snap_id parent_new w =
     bnd next_snapshot_id (\<lambda>new_id.
     bnd (btrfs_snapshot (snapshot_path snap_id) (snapshot_path new_id)) (\<lambda>_.
     bnd (btrfs_snapshot (var_path snap_id) (var_path new_id)) (\<lambda>_.
     bnd (btrfs_snapshot (etc_path snap_id) (etc_path new_id)) (\<lambda>_.
     bnd (btrfs_snapshot (boot_path snap_id) (boot_path new_id)) (\<lambda>_.
     bnd (get_children snap_id) (\<lambda>children.
     bnd (\<lambda>w'. clone_children depth children new_id w') (\<lambda>_.
     ret new_id))))))) w"
| "clone_children depth [] new_id w = (Return (), w)"
| "clone_children depth (child # rest) new_id w =
     bnd (\<lambda>w'. clone_recursive depth child (Some new_id) w') (\<lambda>_ w'.
     clone_children depth rest new_id w') w"

definition clone_tree :: "arg list \<Rightarrow> unit py" where
  "clone_tree args =
     (if length args \<noteq> 1 then die (Usage ''ast clone-tree <id>'') 1
      else
        bnd (py_int (args ! 0)) (\<lambda>root_id.
        bnd (with_stmt lock (\<lambda>_ w. clone_recursive (recursion_limit w) root_id None w)) (\<lambda>new_root.
        print (ClonedTree root_id new_root))))"

definition branch :: "arg list \<Rightarrow> unit py" where
  "branch args =
     (if length args \<noteq> 1 then die (Usage ''ast branch <id>'') 1
      else
        bnd (py_int (args ! 0)) (\<lambda>parent.
        bnd next_snapshot_id (\<lambda>new_id.
        bnd (clone [Numeric parent]) (\<lambda>_.
        print (Branched parent new_id)))))"

definition ubranch :: "arg list \<Rightarrow> unit py" where
  "ubranch args =
     (if length args \<noteq> 2 then die (Usage ''ast ubranch <parent> <id>'') 1
      else clone [args ! 1])"

subsection \<open>deploy\<close>

definition deploy_body :: "int \<Rightarrow> unit py" where
  "deploy_body snap_id =
     bnd (run (SubvolSetDefault (snapshot_path snap_id)) True False) (\<lambda>_.
     bnd (run GrubMkconfig True False) (\<lambda>_. ret ()))"

definition deploy :: "arg list \<Rightarrow> unit py" where
  "deploy args =
     (if length args \<noteq> 1 then die (Usage ''ast deploy <id>'') 1
      else
        bnd (py_int (args ! 0)) (\<lambda>snap_id.
        bnd (with_stmt lock (\<lambda>_. deploy_body snap_id)) (\<lambda>_.
        print (Deployed snap_id))))"

subsection \<open>base_update\<close>

definition base_update_body :: "unit py" where
  "base_update_body =
     bnd (run (Pacman [Word ''-Syu'', Word ''--noconfirm'']) True False) (\<lambda>_.
     bnd (\<lambda>w. if path_exists w (snapshot_path 0)
               then run (SubvolDelete (snapshot_path 0)) True False w
               else (Return None, w)) (\<lambda>_.
     bnd (run (SubvolSnapshot False Slash (snapshot_path 0)) True False) (\<lambda>_. ret ())))"

definition base_update :: "unit py" where
  "base_update = bnd (with_stmt lock (\<lambda>_. base_update_body)) (\<lambda>_. print BaseUpdated)"

subsection \<open>gc\<close>

text \<open>\<^verbatim>\<open>set(range(deployed - 2, deployed + 3)) | {deployed}\<close>.\<close>

definition keep_set :: "int \<Rightarrow> int set" where
  "keep_set deployed = {deployed - 2 ..< deployed + 3} \<union> {deployed}"

fun gc_loop :: "int set \<Rightarrow> int list \<Rightarrow> unit py" where
  "gc_loop keep [] w = (Return (), w)"
| "gc_loop keep (sid # rest) w =
     (if sid \<notin> keep then
        bnd (run (SubvolDelete (snapshot_path sid)) False False) (\<lambda>_.
        bnd (run (SubvolDelete (var_path sid)) False False) (\<lambda>_.
        bnd (run (SubvolDelete (etc_path sid)) False False) (\<lambda>_.
        bnd (run (SubvolDelete (boot_path sid)) False False) (\<lambda>_ w'.
        gc_loop keep rest w')))) w
      else gc_loop keep rest w)"

definition gc_body :: "unit py" where
  "gc_body =
     bnd (run SubvolGetDefault True True) (\<lambda>out.
     bnd (\<lambda>w. case tail_id (case out of Some (DefaultIs d) \<Rightarrow> d | _ \<Rightarrow> None) of
                 None \<Rightarrow> (Raise ValueError, w)
               | Some deployed \<Rightarrow> (Return deployed, w)) (\<lambda>deployed.
     bnd (\<lambda>w. ids_of (filter (\<lambda>p. p \<noteq> Member Rootfs 0) (rootfs_entries w)) w) (\<lambda>ids.
     gc_loop (keep_set deployed) (sort ids))))"

definition gc :: "unit py" where
  "gc = bnd (with_stmt lock (\<lambda>_. gc_body)) (\<lambda>_. print GCCompleted)"

subsection \<open>chroot\<close>

text \<open>
  An entry of the \<^verbatim>\<open>mounts\<close> list: the source, the target and whatever
  follows them in the tuple, so that \<^verbatim>\<open>len(m)\<close> is two more than the length of
  the third component and \<^verbatim>\<open>m[2]\<close>, \<^verbatim>\<open>m[4]\<close> are its elements 0 and 2.
\<close>

type_synonym mount_entry = "string \<times> mpoint \<times> string list"

fun mount_all :: "mount_entry list \<Rightarrow> unit py" where
  "mount_all [] w = (Return (), w)"
| "mount_all ((src, tgt, extra) # rest) w =
     bnd (if 2 + length extra = 5 \<and> extra ! 0 = ''-t''
          then run (MountType (extra ! 2) src tgt) True False
          else run (MountBind src tgt) True False) (\<lambda>_ w'.
     mount_all rest w') w"

fun umount_all :: "mount_entry list \<Rightarrow> unit py" where
  "umount_all [] w = (Return (), w)"
| "umount_all ((src, tgt, extra) # rest) w =
     bnd (if 2 + length extra = 5 \<and> extra ! 0 = ''-t''
          then run (Umount tgt) False False
          else run (Umount tgt) False False) (\<lambda>_ w'.
     umount_all rest w') w"

text \<open>\<^verbatim>\<open>os.chdir(root)\<close> raises \<^verbatim>\<open>OSError\<close> when the directory is missing.\<close>

definition chdir :: "path \<Rightarrow> unit py" where
  "chdir p w = (if path_exists w p then (Return (), w) else (Raise OSError, w))"

text \<open>
  \<^verbatim>\<open>os.execvp(file, argv)\<close> replaces the process image: when the program can be
  launched the call never returns and no further Python statement runs, not even a
  pending \<^verbatim>\<open>finally\<close> suite; otherwise it raises \<^verbatim>\<open>OSError\<close>.
\<close>

definition execvp :: "cmd \<Rightarrow> unit py" where
  "execvp c w =
     (case fault w c of
        NoLaunch \<Rightarrow> (Raise OSError, w)
      | _ \<Rightarrow> (Execed, w\<lparr>trace := trace w @ [c]\<rparr>))"

definition chroot_mounts :: "path \<Rightarrow> mount_entry list" where
  "chroot_mounts root =
     [(''/var'', Inside root ''var'', []),
      (''/etc'', Inside root ''etc'', []),
      (''/proc'', Inside root ''proc'', [''-t'', ''proc'']),
      (''/dev'', Inside root ''dev'', [])]"

definition chroot :: "arg list \<Rightarrow> unit py" where
  "chroot args =
     (if length args \<noteq> 1 then die (Usage ''ast chroot <id>'') 1
      else
        bnd (py_int (args ! 0)) (\<lambda>snap_id.
        let root = snapshot_path snap_id; mounts = chroot_mounts root in
        bnd (mount_all mounts) (\<lambda>_.
        bnd (run (MountMakeRslave (Inside root ''sys'')) True False) (\<lambda>_.
        try_finally
          (bnd (chdir root) (\<lambda>_. execvp (Chroot root [Word ''/bin/bash''])))
          (bnd (umount_all (rev mounts)) (\<lambda>_.
           bnd (run (Umount (Inside root ''sys'')) False False) (\<lambda>_. ret ())))))))"

subsection \<open>tree_run\<close>

text \<open>
  The \<^verbatim>\<open>while stack:\<close> loop of \<^verbatim>\<open>actions._walk_tree\<close>; \<^verbatim>\<open>stack.pop()\<close> takes
  the last element.  \<^verbatim>\<open>utils.get_children\<close> only reads the store, so the world
  is the same at every iteration.  \<open>None\<close> is a loop that never ends.
\<close>

partial_function (option) walk_loop :: "world \<Rightarrow> int list \<Rightarrow> int list \<Rightarrow> int list outcome option" where
  "walk_loop w stack visited =
     (if stack = [] then Some (Return visited)
      else (case fst (get_children (last stack) w) of
              Return children \<Rightarrow> walk_loop w (butlast stack @ children) (visited @ [last stack])
            | Raise e \<Rightarrow> Some (Raise e)
            | Execed \<Rightarrow> Some Execed
            | Hangs \<Rightarrow> Some Hangs))"

definition walk_tree :: "int \<Rightarrow> int list py" where
  "walk_tree root_id w =
     (case walk_loop w [root_id] [] of
        None \<Rightarrow> (Hangs, w)
      | Some r \<Rightarrow> (r, w))"

fun tree_run_loop :: "bool \<Rightarrow> arg list \<Rightarrow> int list \<Rightarrow> unit py" where
  "tree_run_loop fail_fast cmd [] w = (Return (), w)"
| "tree_run_loop fail_fast cmd (sid # rest) w =
     bnd (print (TreeRunOn sid)) (\<lambda>_.
     bnd (try_except_Exception
            (bnd (run (Chroot (snapshot_path sid) cmd) True False) (\<lambda>_. ret ()))
            (if fail_fast then die TreeRunFailFast 1
             else print (TreeRunFailedContinue sid))) (\<lambda>_ w'.
     tree_run_loop fail_fast cmd rest w')) w"

definition tree_run :: "arg list \<Rightarrow> unit py" where
  "tree_run args =
     (if length args < 2 then die (Usage ''ast tree-run <id> <cmd...> [--fail-fast]'') 1
      else
        bnd (py_int (args ! 0)) (\<lambda>root_id.
        let fail_fast = (Word ''--fail-fast'' \<in> set args);
            args' = (if fail_fast then remove1 (Word ''--fail-fast'') args else args);
            cmd = drop 1 args'
        in bnd (walk_tree root_id) (\<lambda>ids. tree_run_loop fail_fast cmd ids)))"

section \<open>The entry point\<close>

text \<open>
  main-cli.py calls the routed action inside \<^verbatim>\<open>try: ... except Exception as e:
  utils.die(f"Fatal: {e}")\<close>: an action that returns ends the process with status
  0, \<^verbatim>\<open>SystemExit(c)\<close> ends it with \<open>c\<close>, any other exception with 1.  A process
  that was replaced or waits forever has no status of its own.
\<close>

fun exit_status :: "'a outcome \<Rightarrow> int option" where
  "exit_status (Return x) = Some 0"
| "exit_status (Raise (SystemExit c)) = Some c"
| "exit_status (Raise e) = Some 1"
| "exit_status Execed = None"
| "exit_status Hangs = None"

section \<open>Example stores\<close>

text \<open>
  The four members of bundle \<open>i\<close>, with uuids \<open>u\<close> to \<open>u + 3\<close>, all read-only;
  \<open>p\<close> is the uuid the rootfs member was snapshotted from.
\<close>

definition members_of :: "int \<Rightarrow> nat \<Rightarrow> nat option \<Rightarrow> subvol list" where
  "members_of i u p =
     [\<lparr>sv_path = Member Rootfs i, sv_uuid = u, sv_parent_uuid = p, sv_readonly = True\<rparr>,
      \<lparr>sv_path = Member Var i, sv_uuid = u + 1, sv_parent_uuid = None, sv_readonly = True\<rparr>,
      \<lparr>sv_path = Member Etc i, sv_uuid = u + 2, sv_parent_uuid = None, sv_readonly = True\<rparr>,
      \<lparr>sv_path = Member Boot i, sv_uuid = u + 3, sv_parent_uuid = None, sv_readonly = True\<rparr>]"

text \<open>A world at rest: nothing mounted, the lock free, nothing launched or printed yet.\<close>

definition at_rest :: "subvol list \<Rightarrow> path option \<Rightarrow> (cmd \<Rightarrow> status) \<Rightarrow> world" where
  "at_rest svs d f =
     \<lparr>subvols = svs, next_uuid = 1000, default_subvol = d, mounted = [], lock_held = False,
      acquired = 0, trace = [], out = [], recursion_limit = 1000, fault = f\<rparr>"

text \<open>An environment in which every tool behaves.\<close>

definition no_fault :: "cmd \<Rightarrow> status" where
  "no_fault c = Exit0"

text \<open>Only the base bundle, deployed.\<close>

definition base_world :: world where
  "base_world = at_rest (members_of 0 0 None) (Some (Member Rootfs 0)) no_fault"

text \<open>
  The store of the retention example: bundles 0, 5, 8, 9, 10, 11, 12, 13 and 20, each
  snapshotted from the one before, with bundle 10 deployed.
\<close>

definition gc_world :: world where
  "gc_world =
     at_rest (members_of 0 0 None @ members_of 5 4 (Some 0) @ members_of 8 8 (Some 4) @
              members_of 9 12 (Some 8) @ members_of 10 16 (Some 12) @
              members_of 11 20 (Some 16) @ members_of 12 24 (Some 20) @
              members_of 13 28 (Some 24) @ members_of 20 32 (Some 28))
       (Some (Member Rootfs 10)) no_fault"

text \<open>
  A tree of four bundles: 1 is the root, 2 and 3 were snapshotted from 1, and 4 from 2.
\<close>

definition tree_store :: "subvol list" where
  "tree_store =
     members_of 1 0 None @ members_of 2 4 (Some 0) @ members_of 3 8 (Some 0) @
     members_of 4 12 (Some 4)"

definition tree_world :: "(cmd \<Rightarrow> status) \<Rightarrow> world" where
  "tree_world f = at_rest tree_store (Some (Member Rootfs 1)) f"

text \<open>An environment in which \<^verbatim>\<open>chroot\<close> into snapshot \<open>i\<close> ends as \<open>st\<close> and all else behaves.\<close>

definition fails_on :: "int \<Rightarrow> status \<Rightarrow> cmd \<Rightarrow> status" where
  "fails_on i st c =
     (case c of Chroot root argv \<Rightarrow> if root = snapshot_path i then st else Exit0 | _ \<Rightarrow> Exit0)"

text \<open>A store with no subvolume at all.\<close>

definition empty_world :: world where
  "empty_world = at_rest [] None no_fault"

text \<open>An environment in which the bind mount of source \<open>s\<close> fails and all else behaves.\<close>

definition mount_fault :: "string \<Rightarrow> cmd \<Rightarrow> status" where
  "mount_fault s c =
     (case c of MountBind src tgt \<Rightarrow> if src = s then ExitNonzero else Exit0 | _ \<Rightarrow> Exit0)"

text \<open>An environment in which \<^verbatim>\<open>grub-mkconfig\<close> fails and all else behaves.\<close>

definition grub_fault :: "cmd \<Rightarrow> status" where
  "grub_fault c = (case c of GrubMkconfig \<Rightarrow> ExitNonzero | _ \<Rightarrow> Exit0)"

section \<open>Observations on a run\<close>

fun is_ro_snapshot :: "cmd \<Rightarrow> bool" where
  "is_ro_snapshot (SubvolSnapshot ro s d) = ro"
| "is_ro_snapshot c = False"

text \<open>
  Between \<open>w\<close> and \<open>w'\<close> nothing was launched but snapshot commands carrying
  \<^verbatim>\<open>-r\<close>, and every subvolume of \<open>w'\<close> that \<open>w\<close> does not have is read-only.
\<close>

definition only_ro_snapshots :: "world \<Rightarrow> world \<Rightarrow> bool" where
  "only_ro_snapshots w w' =
     (take (length (trace w)) (trace w') = trace w \<and>
      list_all is_ro_snapshot (drop (length (trace w)) (trace w')) \<and>
      list_all (\<lambda>sv. sv \<in> set (subvols w) \<or> sv_readonly sv) (subvols w'))"



section \<open>Basic facts\<close>

lemma with_lock_TypeError: "with_stmt lock body w = (Raise TypeError, w)"
  by (simp add: with_stmt_def lock_def bnd_def)

lemmas next_snapshot_id_defs =
  next_snapshot_id_def with_stmt_def open_lock_file_def bnd_def try_finally_def flock_def
  ids_of_def ret_def close_file_def

lemma next_snapshot_id_frame:
  "next_snapshot_id w = (r, w1) \<Longrightarrow>
     subvols w1 = subvols w \<and> trace w1 = trace w \<and> default_subvol w1 = default_subvol w \<and>
     mounted w1 = mounted w \<and> out w1 = out w \<and> next_uuid w1 = next_uuid w \<and>
     fault w1 = fault w \<and> recursion_limit w1 = recursion_limit w"
  by (auto simp add: next_snapshot_id_defs split: if_splits option.splits)

lemma next_snapshot_id_base_world:
  "next_snapshot_id base_world = (Return 1, base_world\<lparr>acquired := 1\<rparr>)"
  by (simp add: next_snapshot_id_defs rootfs_entries_def max_default_def base_world_def
      at_rest_def members_of_def)

lemmas run_defs = run_def spawn_def emit_def die_def bnd_def ret_def print_def

lemmas world_defs = at_rest_def members_of_def no_fault_def find_subvol_def path_exists_def
  snapshot_path_def var_path_def etc_path_def boot_path_def

subsection \<open>Runs that only make read-only snapshots\<close>

text \<open>A transitive relation that every step of a sequence maintains is maintained by the sequence.\<close>

lemma bnd_rel:
  assumes tr: "\<And>a b c. R a b \<Longrightarrow> R b c \<Longrightarrow> R a c"
    and m: "\<And>w r w'. m w = (r, w') \<Longrightarrow> R w w'"
    and f: "\<And>x w r w'. f x w = (r, w') \<Longrightarrow> R w w'"
    and run: "bnd m f w = (r, w')"
  shows "R w w'"
proof (cases "m w")
  case (Pair r1 w1)
  then have 1: "R w w1" using m by blast
  show ?thesis
  proof (cases r1)
    case (Return x)
    with Pair run have "f x w1 = (r, w')" by (simp add: bnd_def)
    then have "R w1 w'" using f by blast
    with 1 show ?thesis using tr by blast
  qed (use Pair run 1 in \<open>auto simp: bnd_def\<close>)
qed

lemma ors_iff:
  "only_ro_snapshots w w' \<longleftrightarrow>
     (\<exists>cs. trace w' = trace w @ cs \<and> list_all is_ro_snapshot cs) \<and>
     (\<forall>sv \<in> set (subvols w'). sv \<in> set (subvols w) \<or> sv_readonly sv)"
  (is "?L \<longleftrightarrow> ?R")
proof
  assume ?L
  then have "trace w' = trace w @ drop (length (trace w)) (trace w')"
    unfolding only_ro_snapshots_def by (metis append_take_drop_id)
  with \<open>?L\<close> show ?R unfolding only_ro_snapshots_def list_all_iff by blast
next
  assume ?R then show ?L unfolding only_ro_snapshots_def list_all_iff by auto
qed

lemma ors_refl: "only_ro_snapshots w w"
  by (simp add: only_ro_snapshots_def list_all_iff)

lemma ors_trans: "only_ro_snapshots a b \<Longrightarrow> only_ro_snapshots b c \<Longrightarrow> only_ro_snapshots a c"
  unfolding ors_iff by (auto simp: list_all_iff) 

lemma ors_frame: "trace w' = trace w \<Longrightarrow> subvols w' = subvols w \<Longrightarrow> only_ro_snapshots w w'"
  by (simp add: only_ro_snapshots_def list_all_iff)

lemma ors_btrfs_snapshot: "btrfs_snapshot src dst w = (r, w') \<Longrightarrow> only_ro_snapshots w w'"
  unfolding ors_iff
  by (auto simp: btrfs_snapshot_def die_def emit_def bnd_def run_def spawn_def ret_def
      add_subvol_def split: if_splits status.splits option.splits)

lemma ors_next_snapshot_id: "next_snapshot_id w = (r, w') \<Longrightarrow> only_ro_snapshots w w'"
  using next_snapshot_id_frame[of w r w'] by (simp add: ors_frame)

lemma ors_get_children: "get_children i w = (r, w') \<Longrightarrow> only_ro_snapshots w w'"
  by (auto simp: get_children_def ors_refl split: option.splits)

lemma ors_ret: "ret x w = (r, w') \<Longrightarrow> only_ro_snapshots w w'"
  by (auto simp: ret_def ors_refl)

lemma ors_bnd:
  assumes m: "\<And>w r w'. m w = (r, w') \<Longrightarrow> only_ro_snapshots w w'"
    and f: "\<And>x w r w'. f x w = (r, w') \<Longrightarrow> only_ro_snapshots w w'"
    and run: "bnd m f w = (r, w')"
  shows "only_ro_snapshots w w'"
proof (rule bnd_rel[where R = only_ro_snapshots and m = m and f = f])
  show "\<And>a b c. only_ro_snapshots a b \<Longrightarrow> only_ro_snapshots b c \<Longrightarrow> only_ro_snapshots a c"
    by (rule ors_trans)
  show "\<And>w r w'. m w = (r, w') \<Longrightarrow> only_ro_snapshots w w'" by (rule m)
  show "\<And>x w r w'. f x w = (r, w') \<Longrightarrow> only_ro_snapshots w w'" by (rule f)
  show "bnd m f w = (r, w')" by (rule run)
qed

lemma ors_clone_children:
  assumes "\<And>c p w r w'. clone_recursive d c p w = (r, w') \<Longrightarrow> only_ro_snapshots w w'"
  shows "clone_children d cs n w = (r, w') \<Longrightarrow> only_ro_snapshots w w'"
proof (induction cs arbitrary: w r w')
  case Nil then show ?case by (simp add: ors_refl)
next
  case (Cons c cs)
  from Cons.prems show ?case
    by (simp, elim ors_bnd[rotated 2]) (auto intro: assms Cons.IH)
qed

lemma ors_clone_recursive:
  "clone_recursive d s p w = (r, w') \<Longrightarrow> only_ro_snapshots w w'"
proof (induction d arbitrary: s p w r w')
  case 0 then show ?case by (simp add: ors_refl)
next
  case (Suc d)
  have cc: "\<And>cs n w r w'. clone_children d cs n w = (r, w') \<Longrightarrow> only_ro_snapshots w w'"
    by (erule ors_clone_children[rotated]) (rule Suc.IH)
  from Suc.prems show ?case
    apply simp
    apply (erule ors_bnd[rotated 2], erule ors_next_snapshot_id)
    apply (erule ors_bnd[rotated 2], erule ors_btrfs_snapshot)
    apply (erule ors_bnd[rotated 2], erule ors_btrfs_snapshot)
    apply (erule ors_bnd[rotated 2], erule ors_btrfs_snapshot)
    apply (erule ors_bnd[rotated 2], erule ors_btrfs_snapshot)
    apply (erule ors_bnd[rotated 2], erule ors_get_children)
    apply (erule ors_bnd[rotated 2])
     apply (erule cc)
    apply (erule ors_ret)
    done
qed

lemma ors_with_lock: "with_stmt lock body w = (r, w') \<Longrightarrow> only_ro_snapshots w w'"
  by (auto simp: with_lock_TypeError ors_refl)

lemma ors_clone: "clone args w = (r, w') \<Longrightarrow> only_ro_snapshots w w'"
  apply (simp add: clone_def die_def split: if_splits)
   apply (auto simp: ors_iff emit_def)[1]
  apply (erule ors_bnd[rotated 2])
   apply (cases "args ! 0"; auto simp: ors_refl)
  apply (erule ors_bnd[rotated 2], erule ors_next_snapshot_id)
  apply (erule ors_bnd[rotated 2], erule ors_with_lock)
  apply (auto simp: print_def emit_def ors_iff)
  done

lemma ors_clone_tree: "clone_tree args w = (r, w') \<Longrightarrow> only_ro_snapshots w w'"
  apply (simp add: clone_tree_def die_def split: if_splits)
   apply (auto simp: ors_iff emit_def)[1]
  apply (erule ors_bnd[rotated 2])
   apply (cases "args ! 0"; auto simp: ors_refl)
  apply (erule ors_bnd[rotated 2], erule ors_with_lock)
  apply (auto simp: print_def emit_def ors_iff)
  done

lemma ors_branch: "branch args w = (r, w') \<Longrightarrow> only_ro_snapshots w w'"
  apply (simp add: branch_def die_def split: if_splits)
   apply (auto simp: ors_iff emit_def)[1]
  apply (erule ors_bnd[rotated 2])
   apply (cases "args ! 0"; auto simp: ors_refl)
  apply (erule ors_bnd[rotated 2], erule ors_next_snapshot_id)
  apply (erule ors_bnd[rotated 2], erule ors_clone)
  apply (auto simp: print_def emit_def ors_iff)
  done

lemma ors_ubranch: "ubranch args w = (r, w') \<Longrightarrow> only_ro_snapshots w w'"
proof (cases "length args = 2")
  case True
  assume "ubranch args w = (r, w')"
  with True have "clone [args ! 1] w = (r, w')" by (simp add: ubranch_def)
  then show ?thesis by (rule ors_clone)
next
  case False
  assume "ubranch args w = (r, w')"
  with False show ?thesis by (auto simp: ubranch_def die_def emit_def ors_iff)
qed

lemma ors_base_update: "base_update w = (r, w') \<Longrightarrow> only_ro_snapshots w w'"
  by (auto simp: base_update_def bnd_def with_lock_TypeError ors_refl)

subsection \<open>Failure inside tree_run and chroot\<close>

text \<open>
  Whatever \<^verbatim>\<open>fail_fast\<close> is, a command that exits non-zero in the snapshot being
  visited ends the loop there with \<^verbatim>\<open>SystemExit(1)\<close>; and in an environment
  where every tool behaves, \<^verbatim>\<open>actions.chroot\<close> on an existing snapshot ends in the
  replaced process with its four mounts added and no unmount launched.
\<close>

lemma tree_run_loop_exits_on_nonzero:
  "fault w (Chroot (snapshot_path sid) cmd) = ExitNonzero \<Longrightarrow>
     tree_run_loop fail_fast cmd (sid # rest) w =
       (Raise (SystemExit 1),
        w\<lparr>out := out w @ [TreeRunOn sid, Echo (Chroot (snapshot_path sid) cmd),
                          LogError (CommandFailed (Chroot (snapshot_path sid) cmd))],
          trace := trace w @ [Chroot (snapshot_path sid) cmd]\<rparr>)"
  by (simp add: run_defs try_except_Exception_def)

lemma chroot_replaces_process:
  "\<forall>c. fault w c = Exit0 \<Longrightarrow> path_exists w (snapshot_path n) \<Longrightarrow>
     fst (chroot [Numeric n] w) = Execed \<and>
     mounted (snd (chroot [Numeric n] w)) =
       mounted w @ [Inside (snapshot_path n) ''var'', Inside (snapshot_path n) ''etc'',
                    Inside (snapshot_path n) ''proc'', Inside (snapshot_path n) ''dev''] \<and>
     trace (snd (chroot [Numeric n] w)) =
       trace w @ [MountBind ''/var'' (Inside (snapshot_path n) ''var''),
                  MountBind ''/etc'' (Inside (snapshot_path n) ''etc''),
                  MountBind ''/proc'' (Inside (snapshot_path n) ''proc''),
                  MountBind ''/dev'' (Inside (snapshot_path n) ''dev''),
                  MountMakeRslave (Inside (snapshot_path n) ''sys''),
                  Chroot (snapshot_path n) [Word ''/bin/bash'']]"
  by (simp add: chroot_def chroot_mounts_def Let_def try_finally_def chdir_def execvp_def
       run_defs path_exists_def find_subvol_def)

lemma walk_tree_tree_world:
  "walk_tree 1 (tree_world f) = (Return [1, 3, 2, 4], tree_world f)"
  by (simp add: walk_tree_def walk_loop.simps get_children_def tree_world_def tree_store_def
      world_defs List.map_filter_def)

lemma next_snapshot_id_waits: "lock_held w \<Longrightarrow> next_snapshot_id w = (Hangs, w)"
  by (simp add: next_snapshot_id_defs)

lemma clone_recursive_waits:
  "lock_held w \<Longrightarrow> 0 < d \<Longrightarrow> clone_recursive d s p w = (Hangs, w)"
  by (cases d) (simp_all add: next_snapshot_id_waits bnd_def)

subsection \<open>The recursive clone never returns\<close>

text \<open>
  \<^verbatim>\<open>_clone_recursive\<close> asks for the children of \<open>snap_id\<close> after it has
  snapshotted \<open>snap_id\<close>, so the snapshot it has just made is among them and is
  cloned in turn, and so on: whatever the recursion limit, the store and the
  environment, a call ends in an exception or never comes back.
\<close>

lemma those_name_id_nonneg:
  "those (map name_id ps) = Some ids \<Longrightarrow> \<forall>i \<in> set ids. 0 \<le> i"
proof (induction ps arbitrary: ids)
  case Nil then show ?case by simp
next
  case (Cons p ps)
  then show ?case
    by (cases p) (auto split: option.splits if_splits)
qed

lemma max_default_ge: "\<forall>i \<in> set ids. 0 \<le> i \<Longrightarrow> - 1 \<le> max_default ids"
proof (cases ids)
  case Nil then show ?thesis by (simp add: max_default_def)
next
  case (Cons x xs)
  assume "\<forall>i \<in> set ids. 0 \<le> i"
  with Cons have "0 \<le> x" by simp
  moreover have "x \<le> Max (set (x # xs))" by simp
  ultimately show ?thesis using Cons by (simp add: max_default_def Max.set_eq_fold[symmetric] del: Max_insert set_simps)
qed

lemma next_snapshot_id_nonneg:
  "next_snapshot_id w = (Return n, w1) \<Longrightarrow> 0 \<le> n"
  using max_default_ge those_name_id_nonneg
  by (fastforce simp add: next_snapshot_id_defs split: if_splits option.splits)

lemma find_append_Some: "find P xs = Some x \<Longrightarrow> find P (xs @ ys) = Some x"
  by (induction xs) (auto split: if_splits)

lemma btrfs_snapshot_grows:
  "btrfs_snapshot src dst w = (Return u, w') \<Longrightarrow> \<exists>e. subvols w' = subvols w @ e"
  by (auto simp: btrfs_snapshot_def run_defs add_subvol_def split: if_splits status.splits option.splits)

lemma btrfs_snapshot_child:
  "btrfs_snapshot (Member k i) dst w = (Return u, w') \<Longrightarrow>
     \<exists>sv. find_subvol w (Member k i) = Some sv \<and>
          subvols w' = subvols w @ [\<lparr>sv_path = dst, sv_uuid = next_uuid w,
                                      sv_parent_uuid = Some (sv_uuid sv), sv_readonly = True\<rparr>]"
  by (auto simp: btrfs_snapshot_def run_defs add_subvol_def find_subvol_def path_exists_def
      split: if_splits status.splits option.splits)

lemma get_children_has_clone:
  assumes "find_subvol w (snapshot_path s) = Some sv"
    and "subvols w' = subvols w @ [\<lparr>sv_path = snapshot_path n, sv_uuid = u,
                                     sv_parent_uuid = Some (sv_uuid sv), sv_readonly = ro\<rparr>] @ e"
    and "0 \<le> n"
  shows "\<exists>cs. get_children s w' = (Return cs, w') \<and> n \<in> set cs"
proof -
  have "find_subvol w' (snapshot_path s) = Some sv"
    using assms(1,2) by (simp add: find_subvol_def find_append_Some)
  then show ?thesis
    using assms(2,3)
    by (auto simp: get_children_def List.map_filter_def snapshot_path_def image_iff
             intro!: bexI[where x = "\<lparr>sv_path = Member Rootfs n, sv_uuid = u,
                                     sv_parent_uuid = Some (sv_uuid sv), sv_readonly = ro\<rparr>"])
qed

lemma bnd_not_Return:
  "(\<And>x w1. m w = (Return x, w1) \<Longrightarrow> fst (f x w1) \<noteq> Return y) \<Longrightarrow> fst (bnd m f w) \<noteq> Return y"
  by (cases "m w"; cases "fst (m w)") (auto simp: bnd_def)

lemma clone_children_never_returns:
  assumes "\<And>c p w y. fst (clone_recursive d c p w) \<noteq> Return y"
  shows "cs \<noteq> [] \<Longrightarrow> fst (clone_children d cs n w) \<noteq> Return y"
proof (cases cs)
  case Nil
  assume "cs \<noteq> []"
  with Nil show ?thesis by simp
next
  case (Cons c rest)
  have "fst (bnd (\<lambda>w'. clone_recursive d c (Some n) w') (\<lambda>_ w'. clone_children d rest n w') w) \<noteq> Return y"
  proof (rule bnd_not_Return)
    fix x w1
    assume "clone_recursive d c (Some n) w = (Return x, w1)"
    then have "fst (clone_recursive d c (Some n) w) = Return x" by simp
    with assms show "fst (clone_children d rest n w1) \<noteq> Return y" by blast
  qed
  with Cons show ?thesis by simp
qed

lemma clone_recursive_never_returns:
  "fst (clone_recursive d s p w) \<noteq> Return y"
proof (induction d arbitrary: s p w y)
  case 0 show ?case by simp
next
  case (Suc d)
  show ?case
  proof (simp, intro bnd_not_Return)
    fix n w1 u2 w2 u3 w3 u4 w4 u5 w5 cs w6 u7 w7
    assume a1: "next_snapshot_id w = (Return n, w1)"
      and a2: "btrfs_snapshot (snapshot_path s) (snapshot_path n) w1 = (Return u2, w2)"
      and a3: "btrfs_snapshot (var_path s) (var_path n) w2 = (Return u3, w3)"
      and a4: "btrfs_snapshot (etc_path s) (etc_path n) w3 = (Return u4, w4)"
      and a5: "btrfs_snapshot (boot_path s) (boot_path n) w4 = (Return u5, w5)"
      and a6: "get_children s w5 = (Return cs, w6)"
    from a1 have n: "0 \<le> n" by (rule next_snapshot_id_nonneg)
    from a2 obtain sv where sv: "find_subvol w1 (snapshot_path s) = Some sv"
      and g2: "subvols w2 = subvols w1 @ [\<lparr>sv_path = snapshot_path n, sv_uuid = next_uuid w1,
                                      sv_parent_uuid = Some (sv_uuid sv), sv_readonly = True\<rparr>]"
      unfolding snapshot_path_def by (blast dest: btrfs_snapshot_child)
    from a3 a4 a5 obtain e3 e4 e5 where "subvols w3 = subvols w2 @ e3" "subvols w4 = subvols w3 @ e4"
      "subvols w5 = subvols w4 @ e5" by (blast dest: btrfs_snapshot_grows)
    with g2 have "subvols w5 = subvols w1 @ [\<lparr>sv_path = snapshot_path n, sv_uuid = next_uuid w1,
                                      sv_parent_uuid = Some (sv_uuid sv), sv_readonly = True\<rparr>] @ (e3 @ e4 @ e5)"
      by simp
    from get_children_has_clone[OF sv this n] a6 have "cs \<noteq> []" by auto
    then have "fst (clone_children d cs n w6) \<noteq> Return u7"
      by (rule clone_children_never_returns[OF Suc.IH])
    moreover assume "clone_children d cs n w6 = (Return u7, w7)"
    ultimately show "fst (ret n w7) \<noteq> Return y" by simp
  qed
qed

subsection \<open>What the allocator returns\<close>

text \<open>
  With the lock free and every rootfs name parsing, \<^verbatim>\<open>utils.next_snapshot_id\<close>
  returns 0 for a store without rootfs members and the largest id plus one otherwise.
\<close>

lemma next_snapshot_id_value:
  "\<not> lock_held w \<Longrightarrow> those (map name_id (rootfs_entries w)) = Some ids \<Longrightarrow>
     fst (next_snapshot_id w) = Return (if ids = [] then 0 else Max (set ids) + 1)"
  unfolding rootfs_entries_def
  by (cases ids) (simp_all add: next_snapshot_id_defs rootfs_entries_def max_default_def
      Max.set_eq_fold del: Max_insert set_simps)

subsection \<open>The suite of deploy\<close>

text \<open>
  The suite under \<^verbatim>\<open>with lock():\<close> in \<^verbatim>\<open>actions.deploy\<close> launches
  \<^verbatim>\<open>grub-mkconfig\<close> only after a \<^verbatim>\<open>set-default\<close> that succeeded, and a failing
  \<^verbatim>\<open>grub-mkconfig\<close> leaves the new default in place.
\<close>

lemma deploy_body_order:
  "trace (snd (deploy_body i w)) = trace w \<or>
   trace (snd (deploy_body i w)) = trace w @ [SubvolSetDefault (snapshot_path i)] \<and>
     fst (deploy_body i w) \<noteq> Return () \<or>
   trace (snd (deploy_body i w)) = trace w @ [SubvolSetDefault (snapshot_path i), GrubMkconfig] \<and>
     default_subvol (snd (deploy_body i w)) = Some (snapshot_path i)"
  by (auto simp: deploy_body_def run_defs split: status.splits if_splits)

lemma deploy_body_no_rollback:
  "find_subvol w (snapshot_path i) \<noteq> None \<Longrightarrow>
   fault w (SubvolSetDefault (snapshot_path i)) = Exit0 \<Longrightarrow>
   fault w GrubMkconfig = ExitNonzero \<Longrightarrow>
     deploy_body i w =
       (Raise (SystemExit 1),
        w\<lparr>default_subvol := Some (snapshot_path i),
          trace := trace w @ [SubvolSetDefault (snapshot_path i), GrubMkconfig],
          out := out w @ [Echo (SubvolSetDefault (snapshot_path i)), Echo GrubMkconfig,
                          LogError (CommandFailed GrubMkconfig)]\<rparr>)"
  by (auto simp: deploy_body_def run_defs find_subvol_def)

text \<open>\<^verbatim>\<open>actions.deploy\<close> itself launches nothing, whatever its arguments.\<close>

lemma deploy_launches_nothing:
  "trace (snd (deploy args w)) = trace w \<and>
   default_subvol (snd (deploy args w)) = default_subvol w"
proof (cases "length args = 1")
  case False then show ?thesis by (simp add: deploy_def die_def emit_def)
next
  case True
  then show ?thesis
    by (cases "args ! 0") (simp_all add: deploy_def bnd_def with_lock_TypeError)
qed

subsection \<open>The suite of gc\<close>

text \<open>
  In an environment where every tool behaves, with a snapshot \<open>d\<close> deployed and
  every rootfs name parsing, the suite under \<^verbatim>\<open>with lock():\<close> in \<^verbatim>\<open>actions.gc\<close>
  returns, and the store it leaves is the one it found without the members, of any
  kind, of the ids that have a rootfs member, are not 0 and are outside the keep-set.
\<close>

lemma find_None_filter: "find P xs = None \<Longrightarrow> filter (\<lambda>x. \<not> P x) xs = xs"
  by (induction xs) (auto split: if_splits)

lemma run_delete:
  assumes "\<forall>c. fault w c = Exit0"
  shows "\<exists>w'. run (SubvolDelete p) False False w = (Return None, w') \<and>
              subvols w' = filter (\<lambda>sv. sv_path sv \<noteq> p) (subvols w) \<and> fault w' = fault w"
  using assms find_None_filter[of "\<lambda>sv. sv_path sv = p" "subvols w"]
  by (auto simp: run_defs find_subvol_def)

lemma gc_loop_result:
  "\<forall>c. fault w c = Exit0 \<Longrightarrow>
     fst (gc_loop K ids w) = Return () \<and>
     subvols (snd (gc_loop K ids w)) =
       filter (\<lambda>sv. \<forall>sid \<in> set ids. sid \<notin> K \<longrightarrow>
                 sv_path sv \<notin> {snapshot_path sid, var_path sid, etc_path sid, boot_path sid})
              (subvols w)"
proof (induction ids arbitrary: w)
  case Nil then show ?case by simp
next
  case (Cons sid rest)
  show ?case
  proof (cases "sid \<in> K")
    case True
    with Cons show ?thesis by simp
  next
    case False
    from run_delete[OF Cons.prems, of "snapshot_path sid"] obtain w1 where
      1: "run (SubvolDelete (snapshot_path sid)) False False w = (Return None, w1)"
      "subvols w1 = filter (\<lambda>sv. sv_path sv \<noteq> snapshot_path sid) (subvols w)" "fault w1 = fault w" by blast
    then have f1: "\<forall>c. fault w1 c = Exit0" using Cons.prems by simp
    from run_delete[OF f1, of "var_path sid"] obtain w2 where
      2: "run (SubvolDelete (var_path sid)) False False w1 = (Return None, w2)"
      "subvols w2 = filter (\<lambda>sv. sv_path sv \<noteq> var_path sid) (subvols w1)" "fault w2 = fault w1" by blast
    then have f2: "\<forall>c. fault w2 c = Exit0" using f1 by simp
    from run_delete[OF f2, of "etc_path sid"] obtain w3 where
      3: "run (SubvolDelete (etc_path sid)) False False w2 = (Return None, w3)"
      "subvols w3 = filter (\<lambda>sv. sv_path sv \<noteq> etc_path sid) (subvols w2)" "fault w3 = fault w2" by blast
    then have f3: "\<forall>c. fault w3 c = Exit0" using f2 by simp
    from run_delete[OF f3, of "boot_path sid"] obtain w4 where
      4: "run (SubvolDelete (boot_path sid)) False False w3 = (Return None, w4)"
      "subvols w4 = filter (\<lambda>sv. sv_path sv \<noteq> boot_path sid) (subvols w3)" "fault w4 = fault w3" by blast
    then have f4: "\<forall>c. fault w4 c = Exit0" using f3 by simp
    have step: "gc_loop K (sid # rest) w = gc_loop K rest w4"
      using False 1(1) 2(1) 3(1) 4(1) by (simp add: bnd_def)
    have "subvols w4 = filter (\<lambda>sv. sv_path sv \<notin> {snapshot_path sid, var_path sid, etc_path sid, boot_path sid}) (subvols w)"
      using 1(2) 2(2) 3(2) 4(2) by (auto intro: filter_cong)
    with Cons.IH[OF f4] step False show ?thesis
      by (auto intro: filter_cong)
  qed
qed


lemma those_map_Some:
  "\<forall>x \<in> set xs. f x = Some (g x) \<Longrightarrow> those (map f xs) = Some (map g xs)"
  by (induction xs) simp_all

lemma member_paths_iff:
  "Member k i \<in> {snapshot_path sid, var_path sid, etc_path sid, boot_path sid} \<longleftrightarrow> i = sid"
  by (cases k) (auto simp: snapshot_path_def var_path_def etc_path_def boot_path_def)

lemma path_exists_snapshot_iff:
  "path_exists w (snapshot_path i) \<longleftrightarrow> Member Rootfs i \<in> sv_path ` set (subvols w)"
  by (force simp: path_exists_def find_subvol_def snapshot_path_def find_None_iff)

lemma gc_ids:
  assumes "\<forall>sv \<in> set (subvols w). \<forall>i. sv_path sv = Member Rootfs i \<longrightarrow> 0 \<le> i"
  shows "\<exists>ids. those (map name_id (filter (\<lambda>p. p \<noteq> Member Rootfs 0) (rootfs_entries w))) = Some ids \<and>
               set ids = {i. i \<noteq> 0 \<and> path_exists w (snapshot_path i)}"
proof -
  let ?ps = "filter (\<lambda>p. p \<noteq> Member Rootfs 0) (rootfs_entries w)"
  let ?g = "\<lambda>p. case p of Member k i \<Rightarrow> i | Slash \<Rightarrow> 0"
  have "\<forall>p \<in> set ?ps. name_id p = Some (?g p)"
    using assms by (auto simp: rootfs_entries_def split: path.splits)
  then have "those (map name_id ?ps) = Some (map ?g ?ps)" by (rule those_map_Some)
  moreover have "set ?ps = (\<lambda>i. Member Rootfs i) ` {i. i \<noteq> 0 \<and> path_exists w (snapshot_path i)}"
  proof (rule set_eqI)
    fix p
    show "p \<in> set ?ps \<longleftrightarrow>
          p \<in> (\<lambda>i. Member Rootfs i) ` {i. i \<noteq> 0 \<and> path_exists w (snapshot_path i)}"
      by (cases p) (auto simp: rootfs_entries_def path_exists_snapshot_iff)
  qed
  then have "set (map ?g ?ps) = {i. i \<noteq> 0 \<and> path_exists w (snapshot_path i)}"
    by (simp add: image_image)
  ultimately show ?thesis by blast
qed

lemma gc_body_retention:
  assumes nf: "\<forall>c. fault w c = Exit0"
    and dep: "default_subvol w = Some (snapshot_path d)" "0 \<le> d"
    and names: "\<forall>sv \<in> set (subvols w). \<forall>i. sv_path sv = Member Rootfs i \<longrightarrow> 0 \<le> i"
  shows "fst (gc_body w) = Return () \<and>
         subvols (snd (gc_body w)) =
           filter (\<lambda>sv. \<forall>k i. sv_path sv = Member k i \<longrightarrow>
                     i = 0 \<or> i \<in> keep_set d \<or> \<not> path_exists w (snapshot_path i))
                  (subvols w)"
proof -
  define w1 where "w1 = w\<lparr>out := out w @ [Echo SubvolGetDefault], trace := trace w @ [SubvolGetDefault]\<rparr>"
  have r: "run SubvolGetDefault True True w = (Return (Some (DefaultIs (default_subvol w))), w1)"
    using nf by (simp add: run_defs w1_def)
  have sv1: "subvols w1 = subvols w" and nf1: "\<forall>c. fault w1 c = Exit0"
    using nf by (simp_all add: w1_def)
  have pe: "\<And>p. path_exists w1 p = path_exists w p"
    by (simp add: path_exists_def find_subvol_def sv1)
  from names sv1 have "\<forall>sv \<in> set (subvols w1). \<forall>i. sv_path sv = Member Rootfs i \<longrightarrow> 0 \<le> i" by simp
  from gc_ids[OF this] obtain ids where
    ids: "those (map name_id (filter (\<lambda>p. p \<noteq> Member Rootfs 0) (rootfs_entries w1))) = Some ids"
      "set ids = {i. i \<noteq> 0 \<and> path_exists w (snapshot_path i)}"
    by (auto simp: pe)
  have body: "gc_body w = gc_loop (keep_set d) (sort ids) w1"
    using r dep ids(1) by (simp add: gc_body_def bnd_def ids_of_def snapshot_path_def)
  have filt: "filter (\<lambda>sv. \<forall>sid \<in> set (sort ids). sid \<notin> keep_set d \<longrightarrow>
                 sv_path sv \<notin> {snapshot_path sid, var_path sid, etc_path sid, boot_path sid})
              (subvols w1) =
        filter (\<lambda>sv. \<forall>k i. sv_path sv = Member k i \<longrightarrow>
                     i = 0 \<or> i \<in> keep_set d \<or> \<not> path_exists w (snapshot_path i))
                  (subvols w)"
    unfolding sv1
  proof (rule filter_cong[OF refl])
    fix sv assume "sv \<in> set (subvols w)"
    show "(\<forall>sid \<in> set (sort ids). sid \<notin> keep_set d \<longrightarrow>
                 sv_path sv \<notin> {snapshot_path sid, var_path sid, etc_path sid, boot_path sid}) =
          (\<forall>k i. sv_path sv = Member k i \<longrightarrow>
                     i = 0 \<or> i \<in> keep_set d \<or> \<not> path_exists w (snapshot_path i))"
    proof (cases "sv_path sv")
      case (Member k i)
      have "(\<forall>sid \<in> set (sort ids). sid \<notin> keep_set d \<longrightarrow>
                 sv_path sv \<notin> {snapshot_path sid, var_path sid, etc_path sid, boot_path sid}) \<longleftrightarrow>
            (i \<in> set ids \<longrightarrow> i \<in> keep_set d)"
        unfolding Member member_paths_iff by auto
      also have "\<dots> \<longleftrightarrow> (i = 0 \<or> i \<in> keep_set d \<or> \<not> path_exists w (snapshot_path i))"
        unfolding ids(2) by blast
      also have "\<dots> \<longleftrightarrow> (\<forall>k i. sv_path sv = Member k i \<longrightarrow>
                     i = 0 \<or> i \<in> keep_set d \<or> \<not> path_exists w (snapshot_path i))"
        unfolding Member by blast
      finally show ?thesis .
    next
      case Slash
      then show ?thesis
        by (auto simp: snapshot_path_def var_path_def etc_path_def boot_path_def)
    qed
  qed
  have "fst (gc_loop (keep_set d) (sort ids) w1) = Return () \<and>
        subvols (snd (gc_loop (keep_set d) (sort ids) w1)) =
          filter (\<lambda>sv. \<forall>sid \<in> set (sort ids). sid \<notin> keep_set d \<longrightarrow>
                 sv_path sv \<notin> {snapshot_path sid, var_path sid, etc_path sid, boot_path sid})
              (subvols w1)"
    by (rule gc_loop_result[OF nf1])
  then show ?thesis unfolding body filt .
qed

lemma gc_body_gc_world:
  "fst (gc_body gc_world) = Return () \<and>
   map sv_path (subvols (snd (gc_body gc_world))) =
     map sv_path (members_of 0 0 None @ members_of 8 8 (Some 4) @ members_of 9 12 (Some 8) @
                  members_of 10 16 (Some 12) @ members_of 11 20 (Some 16) @
                  members_of 12 24 (Some 20))"
  by (simp add: gc_body_def gc_world_def run_defs world_defs ids_of_def rootfs_entries_def
      keep_set_def)

subsection \<open>Requests for the lock\<close>

















section \<open>The mutual exclusion gate\<close>

text \<open>
  Claim C5.  Whatever the suite of a \<^verbatim>\<open>with lock():\<close> statement is, the statement
  raises \<^verbatim>\<open>TypeError\<close> without running it and without changing anything.  Hence
  clone_tree, deploy, base_update and gc, called with the arguments that take them to
  that statement, raise \<^verbatim>\<open>TypeError\<close> and leave the whole world as it was; clone,
  which first allocates an identifier, raises \<^verbatim>\<open>TypeError\<close> in the world the
  allocation left, whose volume store, default subvolume and launch trace are those
  it started from.
\<close>

theorem with_lock_raises_TypeError:
  "with_stmt lock body w = (Raise TypeError, w) \<and>
   clone_tree [Numeric n] w = (Raise TypeError, w) \<and>
   deploy [Numeric n] w = (Raise TypeError, w) \<and>
   base_update w = (Raise TypeError, w) \<and>
   gc w = (Raise TypeError, w) \<and>
   (next_snapshot_id w = (Return dst, w1) \<longrightarrow>
      clone [Numeric n] w = (Raise TypeError, w1) \<and>
      subvols w1 = subvols w \<and> default_subvol w1 = default_subvol w \<and> trace w1 = trace w)"
proof -
  have "next_snapshot_id w = (Return dst, w1) \<Longrightarrow> clone [Numeric n] w = (Raise TypeError, w1)"
    by (simp add: clone_def bnd_def with_lock_TypeError)
  moreover have "clone_tree [Numeric n] w = (Raise TypeError, w)"
    by (simp add: clone_tree_def bnd_def with_lock_TypeError)
  moreover have "deploy [Numeric n] w = (Raise TypeError, w)"
    by (simp add: deploy_def bnd_def with_lock_TypeError)
  moreover have "base_update w = (Raise TypeError, w)"
    by (simp add: base_update_def bnd_def with_lock_TypeError)
  moreover have "gc w = (Raise TypeError, w)"
    by (simp add: gc_def bnd_def with_lock_TypeError)
  ultimately show ?thesis
    using next_snapshot_id_frame [of w "Return dst" w1] by (simp add: with_lock_TypeError)
qed

theorem with_lock_raises_TypeError_witness:
  "next_snapshot_id base_world = (Return 1, base_world\<lparr>acquired := 1\<rparr>) \<and>
   clone [Numeric 0] base_world = (Raise TypeError, base_world\<lparr>acquired := 1\<rparr>) \<and>
   subvols (base_world\<lparr>acquired := 1\<rparr>) = subvols base_world \<and>
   gc base_world = (Raise TypeError, base_world)"
  using with_lock_raises_TypeError [of "\<lambda>_. gc_body" base_world 0 1 "base_world\<lparr>acquired := 1\<rparr>"]
    next_snapshot_id_base_world
  by simp

section \<open>Refusing to overwrite\<close>

text \<open>
  Claim C8.  When the destination path exists, \<^verbatim>\<open>btrfs_snapshot\<close> ends in
  \<^verbatim>\<open>SystemExit(1)\<close> after logging that the destination already exists; the world
  is otherwise the one it was called in, so no program was launched and no
  subvolume was added, removed or altered.  In particular, when all four members of
  bundle \<open>j\<close> exist, the four calls that clone bundle \<open>i\<close> into \<open>j\<close> stop at the
  first one in the same way.
\<close>

theorem btrfs_snapshot_refuses_existing:
  "(path_exists w dst \<longrightarrow>
      btrfs_snapshot src dst w =
        (Raise (SystemExit 1), w\<lparr>out := out w @ [LogError (DestinationExists dst)]\<rparr>)) \<and>
   ((\<forall>k. path_exists w (Member k j)) \<longrightarrow>
      bnd (btrfs_snapshot (snapshot_path i) (snapshot_path j)) (\<lambda>_.
      bnd (btrfs_snapshot (var_path i) (var_path j)) (\<lambda>_.
      bnd (btrfs_snapshot (etc_path i) (etc_path j)) (\<lambda>_.
      btrfs_snapshot (boot_path i) (boot_path j)))) w =
        (Raise (SystemExit 1),
         w\<lparr>out := out w @ [LogError (DestinationExists (snapshot_path j))]\<rparr>))"
  by (simp add: btrfs_snapshot_def die_def emit_def bnd_def snapshot_path_def)

theorem btrfs_snapshot_refuses_existing_witness:
  "path_exists base_world (Member Var 0) \<and>
   (\<forall>k. path_exists base_world (Member k 0)) \<and>
   btrfs_snapshot (Member Var 0) (Member Var 0) base_world =
     (Raise (SystemExit 1),
      base_world\<lparr>out := out base_world @ [LogError (DestinationExists (Member Var 0))]\<rparr>) \<and>
   bnd (btrfs_snapshot (snapshot_path 0) (snapshot_path 0)) (\<lambda>_.
   bnd (btrfs_snapshot (var_path 0) (var_path 0)) (\<lambda>_.
   bnd (btrfs_snapshot (etc_path 0) (etc_path 0)) (\<lambda>_.
   btrfs_snapshot (boot_path 0) (boot_path 0)))) base_world =
     (Raise (SystemExit 1),
      base_world\<lparr>out := out base_world @ [LogError (DestinationExists (snapshot_path 0))]\<rparr>)"
proof -
  have all: "\<forall>k. path_exists base_world (Member k 0)"
  proof
    fix k show "path_exists base_world (Member k 0)"
      by (cases k) (simp_all add: path_exists_def find_subvol_def base_world_def at_rest_def members_of_def)
  qed
  then have one: "path_exists base_world (Member Var 0)" by blast
  show ?thesis
    using btrfs_snapshot_refuses_existing [of base_world "Member Var 0" "Member Var 0" 0 0] all one
    by simp
qed

section \<open>Read-only snapshots\<close>

text \<open>
  Claim C10.  \<^verbatim>\<open>btrfs_snapshot\<close> launches nothing or exactly the snapshot command
  with \<^verbatim>\<open>-r\<close> from its source to its destination.  Hence in every run of
  \<^verbatim>\<open>btrfs_snapshot\<close>, \<^verbatim>\<open>_clone_recursive\<close>, clone, clone_tree, branch, ubranch
  and base_update (the operations that contain a snapshot command) the only programs
  launched are snapshot commands with \<^verbatim>\<open>-r\<close>, and every subvolume the run adds
  to the store is read-only.
\<close>

theorem snapshots_are_read_only:
  "(trace (snd (btrfs_snapshot src dst w)) = trace w \<or>
    trace (snd (btrfs_snapshot src dst w)) = trace w @ [SubvolSnapshot True src dst]) \<and>
   only_ro_snapshots w (snd (btrfs_snapshot src dst w)) \<and>
   only_ro_snapshots w (snd (clone_recursive d s p w)) \<and>
   only_ro_snapshots w (snd (clone args w)) \<and>
   only_ro_snapshots w (snd (clone_tree args w)) \<and>
   only_ro_snapshots w (snd (branch args w)) \<and>
   only_ro_snapshots w (snd (ubranch args w)) \<and>
   only_ro_snapshots w (snd (base_update w))"
proof -
  have "trace (snd (btrfs_snapshot src dst w)) = trace w \<or>
        trace (snd (btrfs_snapshot src dst w)) = trace w @ [SubvolSnapshot True src dst]"
    by (auto simp: btrfs_snapshot_def die_def emit_def bnd_def run_def spawn_def ret_def
        add_subvol_def split: if_splits status.splits option.splits)
  then show ?thesis
    using ors_btrfs_snapshot [OF surjective_pairing] ors_clone_recursive [OF surjective_pairing]
      ors_clone [OF surjective_pairing] ors_clone_tree [OF surjective_pairing]
      ors_branch [OF surjective_pairing] ors_ubranch [OF surjective_pairing]
      ors_base_update [OF surjective_pairing]
    by blast
qed

theorem snapshots_are_read_only_witness:
  "btrfs_snapshot (Member Var 0) (Member Var 1) base_world =
     (Return (),
      base_world\<lparr>subvols := subvols base_world @
                    [\<lparr>sv_path = Member Var 1, sv_uuid = 1000, sv_parent_uuid = Some 1,
                      sv_readonly = True\<rparr>],
                 next_uuid := 1001,
                 trace := [SubvolSnapshot True (Member Var 0) (Member Var 1)],
                 out := [Echo (SubvolSnapshot True (Member Var 0) (Member Var 1))]\<rparr>) \<and>
   only_ro_snapshots base_world (snd (btrfs_snapshot (Member Var 0) (Member Var 1) base_world))"
proof -
  have "btrfs_snapshot (Member Var 0) (Member Var 1) base_world =
     (Return (),
      base_world\<lparr>subvols := subvols base_world @
                    [\<lparr>sv_path = Member Var 1, sv_uuid = 1000, sv_parent_uuid = Some 1,
                      sv_readonly = True\<rparr>],
                 next_uuid := 1001,
                 trace := [SubvolSnapshot True (Member Var 0) (Member Var 1)],
                 out := [Echo (SubvolSnapshot True (Member Var 0) (Member Var 1))]\<rparr>)"
    by (simp add: btrfs_snapshot_def run_defs world_defs base_world_def add_subvol_def)
  then show ?thesis
    using snapshots_are_read_only [of "Member Var 0" "Member Var 1" base_world 0 0 None "[]"]
    by simp
qed

section \<open>What the operations do on the example stores\<close>

text \<open>
  Claim C1.  With bundle 10 deployed and bundles 0, 5, 8, 9, 10, 11, 12, 13 and 20 in
  the store, \<^verbatim>\<open>actions.gc\<close> raises \<^verbatim>\<open>TypeError\<close> at its \<^verbatim>\<open>with lock():\<close> and
  leaves the world as it was: the rootfs members of bundles 5, 13 and 20 are still
  there, and no program was launched.
\<close>

theorem gc_deletes_nothing:
  "gc gc_world = (Raise TypeError, gc_world) \<and>
   map (path_exists (snd (gc gc_world))) [snapshot_path 5, snapshot_path 13, snapshot_path 20] =
     [True, True, True] \<and>
   trace (snd (gc gc_world)) = []"
  by (simp add: gc_def bnd_def with_lock_TypeError gc_world_def world_defs)

text \<open>
  Claim C2.  On the tree of bundles 1, 2, 3 and 4 the visiting order is 1, 3, 2, 4.
  Without \<^verbatim>\<open>--fail-fast\<close>, when the command exits non-zero in snapshot 3 the run
  ends there in \<^verbatim>\<open>SystemExit(1)\<close>: \<^verbatim>\<open>utils.run\<close> has already turned the failure
  into \<^verbatim>\<open>utils.die\<close>, which \<^verbatim>\<open>except Exception\<close> does not catch; snapshots 2 and
  4 are never entered and no "failed, continue" line is printed.  When instead
  \<^verbatim>\<open>chroot\<close> cannot be launched for snapshot 3, the failure is logged, 2 and 4 are
  run, and the operation returns, so the process exits with status 0.
\<close>

theorem tree_run_stops_at_first_failure:
  "tree_run [Numeric 1, Word ''true''] (tree_world (fails_on 3 ExitNonzero)) =
     (Raise (SystemExit 1),
      tree_world (fails_on 3 ExitNonzero)
        \<lparr>trace := [Chroot (snapshot_path 1) [Word ''true''],
                   Chroot (snapshot_path 3) [Word ''true'']],
         out := [TreeRunOn 1, Echo (Chroot (snapshot_path 1) [Word ''true'']),
                 TreeRunOn 3, Echo (Chroot (snapshot_path 3) [Word ''true'']),
                 LogError (CommandFailed (Chroot (snapshot_path 3) [Word ''true'']))]\<rparr>) \<and>
   tree_run [Numeric 1, Word ''true''] (tree_world (fails_on 3 NoLaunch)) =
     (Return (),
      tree_world (fails_on 3 NoLaunch)
        \<lparr>trace := [Chroot (snapshot_path 1) [Word ''true''],
                   Chroot (snapshot_path 2) [Word ''true''],
                   Chroot (snapshot_path 4) [Word ''true'']],
         out := [TreeRunOn 1, Echo (Chroot (snapshot_path 1) [Word ''true'']),
                 TreeRunOn 3, Echo (Chroot (snapshot_path 3) [Word ''true'']),
                 TreeRunFailedContinue 3,
                 TreeRunOn 2, Echo (Chroot (snapshot_path 2) [Word ''true'']),
                 TreeRunOn 4, Echo (Chroot (snapshot_path 4) [Word ''true''])]\<rparr>) \<and>
   exit_status (fst (tree_run [Numeric 1, Word ''true''] (tree_world (fails_on 3 NoLaunch)))) =
     Some 0"
  by (simp add: tree_run_def walk_tree_tree_world bnd_def Let_def)
     (simp add: run_defs try_except_Exception_def tree_world_def at_rest_def fails_on_def
       snapshot_path_def)

text \<open>
  Claim C3.  On the tree of bundles 1, 2, 3 and 4, \<^verbatim>\<open>clone_tree\<close> of the root
  raises \<^verbatim>\<open>TypeError\<close> at its \<^verbatim>\<open>with lock():\<close> and leaves the world as it was: no
  node is created.
\<close>

theorem clone_tree_makes_no_tree:
  "clone_tree [Numeric 1] (tree_world no_fault) = (Raise TypeError, tree_world no_fault) \<and>
   subvols (snd (clone_tree [Numeric 1] (tree_world no_fault))) = tree_store"
  by (simp add: clone_tree_def bnd_def with_lock_TypeError tree_world_def at_rest_def)

text \<open>
  Claim C4.  When every mount and the final \<^verbatim>\<open>os.execvp\<close> succeed, the process is
  replaced by the shell: the \<^verbatim>\<open>finally\<close> suite never runs, no \<^verbatim>\<open>umount\<close> is
  launched, and the four bind mounts stay in the mount table.  When the bind mount of
  \<^verbatim>\<open>/proc\<close> fails, \<^verbatim>\<open>utils.run\<close> exits before the \<^verbatim>\<open>try\<close> is reached and the
  two mounts made so far stay as well.
\<close>

theorem chroot_leaves_mounts:
  "fst (chroot [Numeric 1] (tree_world no_fault)) = Execed \<and>
   mounted (snd (chroot [Numeric 1] (tree_world no_fault))) =
     [Inside (snapshot_path 1) ''var'', Inside (snapshot_path 1) ''etc'',
      Inside (snapshot_path 1) ''proc'', Inside (snapshot_path 1) ''dev''] \<and>
   trace (snd (chroot [Numeric 1] (tree_world no_fault))) =
     [MountBind ''/var'' (Inside (snapshot_path 1) ''var''),
      MountBind ''/etc'' (Inside (snapshot_path 1) ''etc''),
      MountBind ''/proc'' (Inside (snapshot_path 1) ''proc''),
      MountBind ''/dev'' (Inside (snapshot_path 1) ''dev''),
      MountMakeRslave (Inside (snapshot_path 1) ''sys''),
      Chroot (snapshot_path 1) [Word ''/bin/bash'']] \<and>
   fst (chroot [Numeric 1] (tree_world (mount_fault ''/proc''))) = Raise (SystemExit 1) \<and>
   mounted (snd (chroot [Numeric 1] (tree_world (mount_fault ''/proc'')))) =
     [Inside (snapshot_path 1) ''var'', Inside (snapshot_path 1) ''etc'']"
  by (simp add: chroot_def chroot_mounts_def Let_def try_finally_def chdir_def execvp_def
       run_defs world_defs tree_world_def tree_store_def mount_fault_def)

text \<open>
  Claim C7.  From the empty store a clone allocates identifier 0, raises
  \<^verbatim>\<open>TypeError\<close> before it creates anything, and the next allocation returns 0
  again; from a store holding bundle 0 alone the same happens with identifier 1, and
  a branch allocates twice (once itself, once inside clone) without creating
  anything.
\<close>

theorem clone_allocates_duplicates:
  "fst (next_snapshot_id empty_world) = Return 0 \<and>
   clone [Numeric 0] empty_world = (Raise TypeError, empty_world\<lparr>acquired := 1\<rparr>) \<and>
   fst (next_snapshot_id (snd (clone [Numeric 0] empty_world))) = Return 0 \<and>
   fst (next_snapshot_id base_world) = Return 1 \<and>
   clone [Numeric 0] base_world = (Raise TypeError, base_world\<lparr>acquired := 1\<rparr>) \<and>
   fst (next_snapshot_id (snd (clone [Numeric 0] base_world))) = Return 1 \<and>
   branch [Numeric 0] base_world = (Raise TypeError, base_world\<lparr>acquired := 2\<rparr>)"
proof -
  have e0: "next_snapshot_id empty_world = (Return 0, empty_world\<lparr>acquired := 1\<rparr>)"
    by (simp add: next_snapshot_id_defs rootfs_entries_def max_default_def empty_world_def
        at_rest_def)
  have e1: "fst (next_snapshot_id (empty_world\<lparr>acquired := 1\<rparr>)) = Return 0"
    by (simp add: next_snapshot_id_defs rootfs_entries_def max_default_def empty_world_def
        at_rest_def)
  have b1: "next_snapshot_id (base_world\<lparr>acquired := 1\<rparr>) =
              (Return 1, base_world\<lparr>acquired := 2\<rparr>)"
    by (simp add: next_snapshot_id_defs rootfs_entries_def max_default_def base_world_def
        at_rest_def members_of_def)
  have ce: "clone [Numeric 0] empty_world = (Raise TypeError, empty_world\<lparr>acquired := 1\<rparr>)"
    by (simp add: clone_def bnd_def with_lock_TypeError e0)
  have cb: "clone [Numeric 0] base_world = (Raise TypeError, base_world\<lparr>acquired := 1\<rparr>)"
    by (simp add: clone_def bnd_def with_lock_TypeError next_snapshot_id_base_world)
  have cb2: "clone [Numeric 0] (base_world\<lparr>acquired := 1\<rparr>) =
               (Raise TypeError, base_world\<lparr>acquired := 2\<rparr>)"
    by (simp add: clone_def bnd_def with_lock_TypeError b1 [simplified])
  have br: "branch [Numeric 0] base_world = (Raise TypeError, base_world\<lparr>acquired := 2\<rparr>)"
    by (simp add: branch_def bnd_def next_snapshot_id_base_world [simplified] cb2 [simplified])
  show ?thesis
    by (simp add: e0 [simplified] e1 [simplified] b1 [simplified] ce [simplified]
        cb [simplified] br [simplified] next_snapshot_id_base_world [simplified])
qed

section \<open>Promotion\<close>

text \<open>
  Claim C6.  \<^verbatim>\<open>actions.deploy\<close> launches no program and leaves the default
  subvolume as it was, so it never invokes the bootloader generator before a change
  of the default subvolume.  Its suite, the two \<^verbatim>\<open>utils.run\<close> calls under
  \<^verbatim>\<open>with lock():\<close>, launches nothing, or \<^verbatim>\<open>set-default\<close> alone and then does not
  return, or \<^verbatim>\<open>set-default\<close> followed by \<^verbatim>\<open>grub-mkconfig\<close> with the default
  subvolume already changed to the snapshot; and when \<^verbatim>\<open>set-default\<close> succeeds
  and \<^verbatim>\<open>grub-mkconfig\<close> fails, it ends in \<^verbatim>\<open>SystemExit(1)\<close> with the default
  subvolume still the snapshot: nothing is rolled back.
\<close>

theorem deploy_generator_after_default:
  "trace (snd (deploy args w)) = trace w \<and>
   default_subvol (snd (deploy args w)) = default_subvol w \<and>
   (trace (snd (deploy_body i w)) = trace w \<or>
    trace (snd (deploy_body i w)) = trace w @ [SubvolSetDefault (snapshot_path i)] \<and>
      fst (deploy_body i w) \<noteq> Return () \<or>
    trace (snd (deploy_body i w)) =
        trace w @ [SubvolSetDefault (snapshot_path i), GrubMkconfig] \<and>
      default_subvol (snd (deploy_body i w)) = Some (snapshot_path i)) \<and>
   (find_subvol w (snapshot_path i) \<noteq> None \<and>
    fault w (SubvolSetDefault (snapshot_path i)) = Exit0 \<and>
    fault w GrubMkconfig = ExitNonzero \<longrightarrow>
      deploy_body i w =
        (Raise (SystemExit 1),
         w\<lparr>default_subvol := Some (snapshot_path i),
           trace := trace w @ [SubvolSetDefault (snapshot_path i), GrubMkconfig],
           out := out w @ [Echo (SubvolSetDefault (snapshot_path i)), Echo GrubMkconfig,
                           LogError (CommandFailed GrubMkconfig)]\<rparr>))"
  using deploy_launches_nothing[of args w] deploy_body_order[of i w] deploy_body_no_rollback[of w i]
  by blast

theorem deploy_generator_after_default_witness:
  "find_subvol (tree_world grub_fault) (snapshot_path 2) \<noteq> None \<and>
   fault (tree_world grub_fault) (SubvolSetDefault (snapshot_path 2)) = Exit0 \<and>
   fault (tree_world grub_fault) GrubMkconfig = ExitNonzero \<and>
   deploy_body 2 (tree_world grub_fault) =
     (Raise (SystemExit 1),
      tree_world grub_fault
        \<lparr>default_subvol := Some (snapshot_path 2),
         trace := [SubvolSetDefault (snapshot_path 2), GrubMkconfig],
         out := [Echo (SubvolSetDefault (snapshot_path 2)), Echo GrubMkconfig,
                 LogError (CommandFailed GrubMkconfig)]\<rparr>) \<and>
   trace (snd (deploy [Numeric 2] (tree_world grub_fault))) = []"
proof -
  have h: "find_subvol (tree_world grub_fault) (snapshot_path 2) \<noteq> None \<and>
     fault (tree_world grub_fault) (SubvolSetDefault (snapshot_path 2)) = Exit0 \<and>
     fault (tree_world grub_fault) GrubMkconfig = ExitNonzero"
    by (simp add: tree_world_def tree_store_def world_defs grub_fault_def)
  have t: "trace (tree_world grub_fault) = []" "out (tree_world grub_fault) = []"
    by (simp_all add: tree_world_def at_rest_def)
  show ?thesis
    using deploy_generator_after_default [of "[Numeric 2]" "tree_world grub_fault" 2] h t by simp
qed

section \<open>No request for the lock while it is held\<close>



end
